theory Spec2Isabelle
  imports Complex_Main
begin

section \<open>Calendar dates, as Python's datetime module computes them\<close>

text \<open>
  \<open>availability.py\<close> turns both date strings into \<open>datetime.date\<close> values with
  \<open>datetime.strptime(s, "%Y-%m-%d").date()\<close> and subtracts them. The subtraction is the
  difference of the proleptic Gregorian ordinals (\<open>date.toordinal\<close>), so the ordinal is
  modelled as the standard library computes it: days before the year, days before the
  month, day of the month.
\<close>

datatype date = Date (year: int) (month: int) (day: int)

definition is_leap :: "int \<Rightarrow> bool" where
  "is_leap y = (y mod 4 = 0 \<and> (y mod 100 \<noteq> 0 \<or> y mod 400 = 0))"

definition days_before_year :: "int \<Rightarrow> int" where
  "days_before_year y = (y - 1) * 365 + (y - 1) div 4 - (y - 1) div 100 + (y - 1) div 400"

text \<open>The two tables of the library; index 0 is the placeholder \<open>-1\<close>.\<close>

definition DAYS_IN_MONTH :: "int list" where
  "DAYS_IN_MONTH = [-1, 31, 28, 31, 30, 31, 30, 31, 31, 30, 31, 30, 31]"

definition DAYS_BEFORE_MONTH :: "int list" where
  "DAYS_BEFORE_MONTH = [-1, 0, 31, 59, 90, 120, 151, 181, 212, 243, 273, 304, 334]"

definition days_in_month :: "int \<Rightarrow> int \<Rightarrow> int" where
  "days_in_month y m = (if m = 2 \<and> is_leap y then 29 else DAYS_IN_MONTH ! nat m)"

definition days_before_month :: "int \<Rightarrow> int \<Rightarrow> int" where
  "days_before_month y m = DAYS_BEFORE_MONTH ! nat m + (if 2 < m \<and> is_leap y then 1 else 0)"

definition toordinal :: "date \<Rightarrow> int" where
  "toordinal d = days_before_year (year d) + days_before_month (year d) (month d) + day d"

text \<open>
  What the \<open>date\<close> constructor accepts: a year from 1 to 9999, a month from 1 to 12 and a
  day that the month has.
\<close>

definition valid_date :: "date \<Rightarrow> bool" where
  "valid_date d = (1 \<le> year d \<and> year d \<le> 9999 \<and> 1 \<le> month d \<and> month d \<le> 12 \<and>
     1 \<le> day d \<and> day d \<le> days_in_month (year d) (month d))"

text \<open>The calendar order: by year, then by month, then by day.\<close>

definition date_le :: "date \<Rightarrow> date \<Rightarrow> bool" where
  "date_le a b = (year a < year b \<or> (year a = year b \<and>
     (month a < month b \<or> (month a = month b \<and> day a \<le> day b))))"

subsection \<open>Parsing with the format \<open>%Y-%m-%d\<close>\<close>

text \<open>
  \<open>strptime\<close> compiles the format to the regular expression
  \<^verbatim>\<open>(?P<Y>\d\d\d\d)-(?P<m>1[0-2]|0[1-9]|[1-9])-(?P<d>3[0-1]|[1-2]\d|0[1-9]|[1-9]| [1-9])\<close>,
  matches it at the start of the string and then refuses a string with characters left
  over. Each group is modelled as the list of its matches in the order the alternatives
  are tried (the value read and the rest of the string), and the first match of the whole
  expression is the head of the list of all of them: that is the backtracking search.
  Strings are byte strings; the digits are the ASCII digits.
\<close>

datatype error =
    PackageNotFound string  \<comment> \<open>the \<open>ValueError\<close> of \<open>calculate_total_price\<close>, with its message\<close>
  | DateParseError  \<comment> \<open>the \<open>ValueError\<close> of \<open>datetime.strptime\<close>\<close>

definition is_digit :: "char \<Rightarrow> bool" where
  "is_digit c = (48 \<le> (of_char c :: nat) \<and> (of_char c :: nat) \<le> 57)"

definition digit_val :: "char \<Rightarrow> int" where
  "digit_val c = int (of_char c) - 48"

definition in_range :: "char \<Rightarrow> char \<Rightarrow> char \<Rightarrow> bool" where
  "in_range lo hi c = ((of_char lo :: nat) \<le> of_char c \<and> (of_char c :: nat) \<le> of_char hi)"

fun match_Y :: "string \<Rightarrow> (int \<times> string) list" where
  "match_Y (a # b # c # d # rest) =
     (if is_digit a \<and> is_digit b \<and> is_digit c \<and> is_digit d
      then [(1000 * digit_val a + 100 * digit_val b + 10 * digit_val c + digit_val d, rest)]
      else [])"
| "match_Y _ = []"

text \<open>An alternative of two characters, each from a range, read as a two-digit number.\<close>

fun two_chars :: "char \<Rightarrow> char \<Rightarrow> char \<Rightarrow> char \<Rightarrow> string \<Rightarrow> (int \<times> string) list" where
  "two_chars lo1 hi1 lo2 hi2 (a # b # rest) =
     (if in_range lo1 hi1 a \<and> in_range lo2 hi2 b
      then [(10 * digit_val a + digit_val b, rest)] else [])"
| "two_chars lo1 hi1 lo2 hi2 _ = []"

fun one_char :: "char \<Rightarrow> char \<Rightarrow> string \<Rightarrow> (int \<times> string) list" where
  "one_char lo hi (a # rest) = (if in_range lo hi a then [(digit_val a, rest)] else [])"
| "one_char lo hi _ = []"

text \<open>The alternative \<^verbatim>\<open> [1-9]\<close> of the day: a space, then one digit.\<close>

fun space_digit :: "string \<Rightarrow> (int \<times> string) list" where
  "space_digit (a # b # rest) =
     (if a = CHR '' '' \<and> in_range CHR ''1'' CHR ''9'' b then [(digit_val b, rest)] else [])"
| "space_digit _ = []"

definition match_m :: "string \<Rightarrow> (int \<times> string) list" where
  "match_m s = two_chars CHR ''1'' CHR ''1'' CHR ''0'' CHR ''2'' s
             @ two_chars CHR ''0'' CHR ''0'' CHR ''1'' CHR ''9'' s
             @ one_char CHR ''1'' CHR ''9'' s"

definition match_d :: "string \<Rightarrow> (int \<times> string) list" where
  "match_d s = two_chars CHR ''3'' CHR ''3'' CHR ''0'' CHR ''1'' s
             @ two_chars CHR ''1'' CHR ''2'' CHR ''0'' CHR ''9'' s
             @ two_chars CHR ''0'' CHR ''0'' CHR ''1'' CHR ''9'' s
             @ one_char CHR ''1'' CHR ''9'' s
             @ space_digit s"

fun match_dash :: "string \<Rightarrow> string list" where
  "match_dash (a # rest) = (if a = CHR ''-'' then [rest] else [])"
| "match_dash [] = []"

definition format_regex_matches :: "string \<Rightarrow> (date \<times> string) list" where
  "format_regex_matches s =
     [(Date y m d, r5). (y, r1) \<leftarrow> match_Y s, r2 \<leftarrow> match_dash r1, (m, r3) \<leftarrow> match_m r2,
        r4 \<leftarrow> match_dash r3, (d, r5) \<leftarrow> match_d r4]"

definition strptime_date :: "string \<Rightarrow> error + date" where
  "strptime_date s =
     (case format_regex_matches s of
        [] \<Rightarrow> Inl DateParseError
      | (d, rest) # _ \<Rightarrow>
          if rest \<noteq> [] then Inl DateParseError
          else if valid_date d then Inr d
          else Inl DateParseError)"

section \<open>Rental days\<close>

definition calculate_rental_days :: "string \<Rightarrow> string \<Rightarrow> error + int" where
  "calculate_rental_days start_date end_date =
     (case strptime_date start_date of
        Inl e \<Rightarrow> Inl e
      | Inr start \<Rightarrow>
          (case strptime_date end_date of
             Inl e \<Rightarrow> Inl e
           | Inr end_d \<Rightarrow>
               (let days = (toordinal end_d - toordinal start) + 1
                in Inr (max 1 days))))"

section \<open>Text: integers and amounts as Python prints them\<close>

text \<open>
  \<open>str\<close> of an integer (what an f-string writes for \<open>{qty}\<close>): the decimal digits, with a
  minus sign in front of a negative number.
\<close>

definition digit_char :: "nat \<Rightarrow> char" where
  "digit_char n = char_of (48 + n)"

function str_nat :: "nat \<Rightarrow> string" where
  "str_nat n = (if n < 10 then [digit_char n] else str_nat (n div 10) @ [digit_char (n mod 10)])"
  by pat_completeness auto
termination
  by (relation "measure (\<lambda>n. n)") auto

declare str_nat.simps [simp del]

definition str_int :: "int \<Rightarrow> string" where
  "str_int i = (if i < 0 then CHR ''-'' # str_nat (nat (- i)) else str_nat (nat i))"

text \<open>
  Amounts are Python floats. A finite float is a real number, and the model takes an
  amount as that real number; infinities and NaN are not values of the model. The format
  \<open>:.2f\<close> prints the decimal numeral with two fractional digits that is nearest to the
  value, a tie going to the even neighbour, and keeps the sign of a negative value.
\<close>

definition round_half_even :: "real \<Rightarrow> int" where
  "round_half_even x =
     (let f = \<lfloor>x\<rfloor>; r = x - of_int f
      in if r < 1 / 2 then f else if 1 / 2 < r then f + 1 else if even f then f else f + 1)"

definition format_2f :: "real \<Rightarrow> string" where
  "format_2f x =
     (let n = nat (round_half_even (\<bar>x\<bar> * 100))
      in (if x < 0 then ''-'' else []) @ str_nat (n div 100) @ ''.''
           @ [digit_char (n mod 100 div 10), digit_char (n mod 10)])"

text \<open>
  Float arithmetic rounds: the product and the sum of two floats are the exact result
  rounded to a float, and an integer operand is converted to a float first. The rounding
  function is a parameter \<open>rnd\<close> of everything that computes with amounts, so the theorems
  hold for the rounding of the machine as they do for exact arithmetic (\<open>rnd = (\<lambda>x. x)\<close>).
  Results beyond the range of a float are outside the model.
\<close>

definition float_of_int :: "(real \<Rightarrow> real) \<Rightarrow> int \<Rightarrow> real" where
  "float_of_int rnd n = rnd (of_int n)"

definition float_mul :: "(real \<Rightarrow> real) \<Rightarrow> real \<Rightarrow> real \<Rightarrow> real" where
  "float_mul rnd a b = rnd (a * b)"

definition float_add :: "(real \<Rightarrow> real) \<Rightarrow> real \<Rightarrow> real \<Rightarrow> real" where
  "float_add rnd a b = rnd (a + b)"

section \<open>The store and its client\<close>

text \<open>
  The tables the availability and pricing code reads, a row of each as a record of its
  columns; the two date columns of a booking hold dates. With the tables the store has
  its way of reading the text of a date that a request carries: the date, or nothing for
  a text it cannot read. That belongs to the store and not to the source, so it is a
  component of the store, \<open>read_date\<close>, and the properties below hold for any store.
\<close>

record package =
  pkg_id :: int
  pkg_name :: string
  pkg_description :: string
  pkg_daily_rate :: real
  pkg_stock :: int

record booking =
  bk_id :: int
  bk_package_id :: int
  bk_customer_name :: string
  bk_phone :: string
  bk_email :: string
  bk_start_date :: date
  bk_end_date :: date
  bk_qty :: int
  bk_include_dj :: bool
  bk_total_price :: real
  bk_status :: string

record setting =
  set_id :: int
  set_dj_daily_rate :: real

record store =
  packages :: "package list"
  bookings :: "booking list"
  settings :: "setting list"
  read_date :: "string \<Rightarrow> date option"

text \<open>
  A client is the store it talks to together with the requests it has executed, oldest
  first. Every \<open>execute()\<close> of the source appends its request; a \<open>select\<close> leaves the store
  as it is. The operations take the client as an argument, as their callers in
  \<open>cli.py\<close> pass it; the default of the source, the client shared by the process, is
  a client like any other.
\<close>

datatype table = Packages | Bookings | Settings

datatype request = Select table | Insert table | Update table | Delete table

record client =
  db :: store
  log :: "request list"

definition execute_select :: "table \<Rightarrow> client \<Rightarrow> client" where
  "execute_select t c = c\<lparr>log := log c @ [Select t]\<rparr>"

text \<open>\<^verbatim>\<open>client.table("packages").select(...).eq("id", package_id).execute()\<close>\<close>

definition select_packages :: "int \<Rightarrow> client \<Rightarrow> package list \<times> client" where
  "select_packages package_id c =
     (filter (\<lambda>p. pkg_id p = package_id) (packages (db c)), execute_select Packages c)"

text \<open>\<^verbatim>\<open>client.table("settings").select("dj_daily_rate").eq("id", 1).execute()\<close>\<close>

definition select_settings :: "int \<Rightarrow> client \<Rightarrow> setting list \<times> client" where
  "select_settings sid c =
     (filter (\<lambda>r. set_id r = sid) (settings (db c)), execute_select Settings c)"

text \<open>
  The filters \<^verbatim>\<open>.lte("start_date", end_date)\<close> and \<^verbatim>\<open>.gte("end_date", start_date)\<close>
  compare a date column with the text the source passes on from its caller. The store
  reads that text as a date (\<open>read_date\<close>) and compares the two dates in the order of the
  calendar. A request with a text the store cannot read fails inside the store; the
  source has no branch for that, and in the model such a filter keeps no row.
\<close>

definition date_lte :: "store \<Rightarrow> date \<Rightarrow> string \<Rightarrow> bool" where
  "date_lte st col lit = (case read_date st lit of Some d \<Rightarrow> date_le col d | None \<Rightarrow> False)"

definition date_gte :: "store \<Rightarrow> date \<Rightarrow> string \<Rightarrow> bool" where
  "date_gte st col lit = (case read_date st lit of Some d \<Rightarrow> date_le d col | None \<Rightarrow> False)"

definition get_bookings_for_package ::
  "int \<Rightarrow> string \<Rightarrow> string \<Rightarrow> client \<Rightarrow> booking list \<times> client" where
  "get_bookings_for_package package_id start_date end_date c =
     (let rows = bookings (db c);
          rows = filter (\<lambda>b. bk_package_id b = package_id) rows;
          rows = filter (\<lambda>b. bk_status b \<noteq> ''cancelled'') rows;
          rows = filter (\<lambda>b. date_lte (db c) (bk_start_date b) end_date) rows;
          rows = filter (\<lambda>b. date_gte (db c) (bk_end_date b) start_date) rows
      in (rows, execute_select Bookings c))"

definition get_dj_rate :: "client \<Rightarrow> real \<times> client" where
  "get_dj_rate c =
     (let (data, c1) = select_settings 1 c
      in case data of
           row # _ \<Rightarrow> (set_dj_daily_rate row, c1)
         | [] \<Rightarrow> (150, c1))"

section \<open>Availability\<close>

definition is_package_available ::
  "int \<Rightarrow> string \<Rightarrow> string \<Rightarrow> int \<Rightarrow> client \<Rightarrow> (bool \<times> string) \<times> client" where
  "is_package_available package_id start_date end_date qty c =
     (let (pkg_data, c1) = select_packages package_id c
      in case pkg_data of
           [] \<Rightarrow> ((False, ''Package '' @ str_int package_id @ '' not found''), c1)
         | package # _ \<Rightarrow>
             (let stock = pkg_stock package;
                  package_name = pkg_name package
              in if qty > stock
                 then ((False, ''Requested quantity ('' @ str_int qty @ '') exceeds total stock (''
                          @ str_int stock @ '') for '' @ package_name), c1)
                 else
                   (let (overlapping_bookings, c2) =
                          get_bookings_for_package package_id start_date end_date c1;
                        booked_qty = sum_list (map bk_qty overlapping_bookings);
                        remaining = stock - booked_qty
                    in if qty > remaining
                       then ((False, ''Not enough '' @ package_name @ '' available. ''
                                @ ''You need: '' @ str_int qty @ '', We have: '' @ str_int remaining
                                @ '' (already booked: '' @ str_int booked_qty @ ''/''
                                @ str_int stock @ '')''), c2)
                       else ((True, package_name @ '' is available ('' @ str_int remaining
                                @ '' of '' @ str_int stock @ '' free for these dates)''), c2))))"

section \<open>Pricing\<close>

text \<open>
  The breakdown dictionary: field \<open>bd_x\<close> is the value under the key \<open>x\<close>. The source
  builds it with all seven keys and then overwrites three of them when a DJ is booked.
\<close>

record breakdown =
  bd_days :: int
  bd_daily_rate :: real
  bd_qty :: int
  bd_base_price :: real
  bd_dj_rate :: real
  bd_dj_price :: real
  bd_total :: real

definition calculate_total_price ::
  "(real \<Rightarrow> real) \<Rightarrow> int \<Rightarrow> string \<Rightarrow> string \<Rightarrow> int \<Rightarrow> bool \<Rightarrow> client
     \<Rightarrow> (error + real \<times> breakdown) \<times> client" where
  "calculate_total_price rnd package_id start_date end_date qty include_dj c =
     (let (pkg_data, c1) = select_packages package_id c
      in case pkg_data of
           [] \<Rightarrow> (Inl (PackageNotFound (''Package '' @ str_int package_id @ '' not found'')), c1)
         | package # _ \<Rightarrow>
             (let daily_rate = pkg_daily_rate package
              in case calculate_rental_days start_date end_date of
                   Inl e \<Rightarrow> (Inl e, c1)
                 | Inr days \<Rightarrow>
                     (let base_price =
                            float_mul rnd (float_mul rnd daily_rate (float_of_int rnd days))
                              (float_of_int rnd qty);
                          bd = \<lparr>bd_days = days, bd_daily_rate = daily_rate, bd_qty = qty,
                                bd_base_price = base_price, bd_dj_rate = 0, bd_dj_price = 0,
                                bd_total = base_price\<rparr>
                      in if include_dj
                         then
                           (let (dj_rate, c2) = get_dj_rate c1;
                                dj_price =
                                  float_mul rnd (float_mul rnd dj_rate (float_of_int rnd days))
                                    (float_of_int rnd qty);
                                bd = bd\<lparr>bd_dj_rate := dj_rate\<rparr>;
                                bd = bd\<lparr>bd_dj_price := dj_price\<rparr>;
                                bd = bd\<lparr>bd_total := float_add rnd base_price dj_price\<rparr>
                            in (Inr (bd_total bd, bd), c2))
                         else (Inr (bd_total bd, bd), c1))))"

section \<open>Formatting a breakdown\<close>

text \<open>The multiplication sign U+00D7, as its two bytes in UTF-8.\<close>

definition times_sign :: string where
  "times_sign = [CHR 0xC3, CHR 0x97]"

definition equipment_line :: "breakdown \<Rightarrow> string" where
  "equipment_line b =
     ''Equipment: $'' @ format_2f (bd_daily_rate b) @ ''/day '' @ times_sign @ '' ''
       @ str_int (bd_days b) @ '' days '' @ times_sign @ '' ''
       @ str_int (bd_qty b) @ '' qty = $'' @ format_2f (bd_base_price b)"

definition dj_line :: "breakdown \<Rightarrow> string" where
  "dj_line b =
     ''DJ Service: $'' @ format_2f (bd_dj_rate b) @ ''/day '' @ times_sign @ '' ''
       @ str_int (bd_days b) @ '' days '' @ times_sign @ '' ''
       @ str_int (bd_qty b) @ '' qty = $'' @ format_2f (bd_dj_price b)"

definition total_line :: "breakdown \<Rightarrow> string" where
  "total_line b = ''Total: $'' @ format_2f (bd_total b)"

text \<open>\<^verbatim>\<open>"\n".join(lines)\<close>\<close>

fun join_lines :: "string list \<Rightarrow> string" where
  "join_lines [] = []"
| "join_lines [l] = l"
| "join_lines (l # ls) = l @ [CHR 0x0A] @ join_lines ls"

definition format_price_breakdown :: "breakdown \<Rightarrow> string" where
  "format_price_breakdown b =
     (let lines = [];
          lines = lines @ [equipment_line b];
          lines = (if bd_dj_price b > 0 then lines @ [dj_line b] else lines);
          lines = lines @ [total_line b]
      in join_lines lines)"

section \<open>Reading a formatted breakdown back\<close>

text \<open>
  What the properties of the formatter are stated with: the lines of a text (the pieces
  between its newline characters), a text that begins with a given label, and a numeral
  with exactly two digits after its decimal point (an optional minus sign, at least one
  digit, the point, two digits).
\<close>

fun split_lines :: "string \<Rightarrow> string list" where
  "split_lines [] = [[]]"
| "split_lines (c # cs) =
     (if c = CHR 0x0A then [] # split_lines cs
      else (case split_lines cs of l # ls \<Rightarrow> (c # l) # ls | [] \<Rightarrow> [[c]]))"

fun starts_with :: "string \<Rightarrow> string \<Rightarrow> bool" where
  "starts_with [] s = True"
| "starts_with (p # ps) [] = False"
| "starts_with (p # ps) (c # cs) = (p = c \<and> starts_with ps cs)"

definition unsigned_two_decimals :: "string \<Rightarrow> bool" where
  "unsigned_two_decimals s =
     (case rev s of
        d2 # d1 # point # ds \<Rightarrow>
          is_digit d2 \<and> is_digit d1 \<and> point = CHR ''.'' \<and> ds \<noteq> [] \<and> list_all is_digit ds
      | _ \<Rightarrow> False)"

definition two_decimal_places :: "string \<Rightarrow> bool" where
  "two_decimal_places s =
     (case s of
        c # cs \<Rightarrow> if c = CHR ''-'' then unsigned_two_decimals cs else unsigned_two_decimals s
      | [] \<Rightarrow> False)"

section \<open>A store to run the operations on\<close>

text \<open>
  One package with five units and a daily rate of 75. Four bookings of it: a pending one
  of three units from 9 to 13 November 2025, a cancelled one of a hundred units over the
  same days, a confirmed one of four units from 1 to 5 November, and a confirmed one of
  one unit on 11 and 12 October. A DJ rate of 150. The store reads the text of a date
  the way \<open>strptime\<close> does with \<open>%Y-%m-%d\<close>.
\<close>

definition demo_package :: package where
  "demo_package = \<lparr>pkg_id = 1, pkg_name = ''Basic'', pkg_description = ''Two speakers'',
     pkg_daily_rate = 75, pkg_stock = 5\<rparr>"

definition demo_booking :: "int \<Rightarrow> date \<Rightarrow> date \<Rightarrow> int \<Rightarrow> string \<Rightarrow> booking" where
  "demo_booking i s e n st = \<lparr>bk_id = i, bk_package_id = 1, bk_customer_name = ''Ada'',
     bk_phone = ''555-0100'', bk_email = ''ada@example.org'', bk_start_date = s,
     bk_end_date = e, bk_qty = n, bk_include_dj = False, bk_total_price = 0, bk_status = st\<rparr>"

definition demo_read_date :: "string \<Rightarrow> date option" where
  "demo_read_date s = (case strptime_date s of Inr d \<Rightarrow> Some d | Inl _ \<Rightarrow> None)"

definition demo_store :: store where
  "demo_store = \<lparr>packages = [demo_package],
     bookings = [demo_booking 1 (Date 2025 11 9) (Date 2025 11 13) 3 ''pending'',
                 demo_booking 2 (Date 2025 11 9) (Date 2025 11 13) 100 ''cancelled'',
                 demo_booking 3 (Date 2025 11 1) (Date 2025 11 5) 4 ''confirmed'',
                 demo_booking 4 (Date 2025 10 11) (Date 2025 10 12) 1 ''confirmed''],
     settings = [\<lparr>set_id = 1, set_dj_daily_rate = 150\<rparr>],
     read_date = demo_read_date\<rparr>"

definition demo_client :: client where
  "demo_client = \<lparr>db = demo_store, log = []\<rparr>"

section \<open>Properties of the date arithmetic\<close>

lemma div_step: 
  fixes y n :: int assumes n: "0 < n"
  shows "y div n = (y - 1) div n + (if y mod n = 0 then 1 else 0)"
proof (cases "y mod n = 0")
  case True
  then have "n * (y div n) = y" by (simp add: mod_eq_0_iff_dvd)
  then have "y - 1 = n * (y div n - 1) + (n - 1)"
    by (simp add: algebra_simps)
  then have "(y - 1) div n = y div n - 1"
    using n by (intro int_div_pos_eq[of _ n _ "n - 1"]) auto
  with True show ?thesis by simp
next
  case False
  have r: "0 \<le> y mod n" "y mod n < n" using n by simp_all
  have "y - 1 = n * (y div n) + (y mod n - 1)"
    by (simp add: algebra_simps)
  then have "(y - 1) div n = y div n"
    using n r False by (intro int_div_pos_eq[of _ n _ "y mod n - 1"]) auto
  with False show ?thesis by simp
qed

lemma dby_step: "days_before_year (y + 1) = days_before_year y + (if is_leap y then 366 else 365)"
proof -
  define A where "A = (y - 1) div 4"
  define B where "B = (y - 1) div 100"
  define C where "C = (y - 1) div 400"
  have a: "y div 4 = A + (if y mod 4 = 0 then 1 else 0)" unfolding A_def by (rule div_step) simp
  have b: "y div 100 = B + (if y mod 100 = 0 then 1 else 0)" unfolding B_def by (rule div_step) simp
  have c: "y div 400 = C + (if y mod 400 = 0 then 1 else 0)" unfolding C_def by (rule div_step) simp
  have "y mod 4 = y mod 100 mod 4" by (simp add: mod_mod_cancel)
  then have d: "y mod 100 = 0 \<Longrightarrow> y mod 4 = 0" by simp
  have "y mod 100 = y mod 400 mod 100" by (simp add: mod_mod_cancel)
  then have e: "y mod 400 = 0 \<Longrightarrow> y mod 100 = 0" by simp
  have s: "days_before_year (y + 1) = y * 365 + y div 4 - y div 100 + y div 400"
    by (simp add: days_before_year_def)
  have t: "days_before_year y = (y - 1) * 365 + A - B + C"
    by (simp add: days_before_year_def A_def B_def C_def)
  consider (c1) "y mod 4 \<noteq> 0" | (c2) "y mod 4 = 0" "y mod 100 \<noteq> 0"
    | (c3) "y mod 100 = 0" "y mod 400 \<noteq> 0" | (c4) "y mod 400 = 0" by meson
  then show ?thesis
  proof cases
    case c1
    then have n: "y mod 100 \<noteq> 0" "y mod 400 \<noteq> 0" using d e by meson+
    have "\<not> is_leap y" using c1 by (simp add: is_leap_def)
    moreover have "y div 4 = A" "y div 100 = B" "y div 400 = C" using a b c c1 n by simp_all
    ultimately show ?thesis unfolding s t by simp
  next
    case c2
    then have n: "y mod 400 \<noteq> 0" using e by meson
    have "is_leap y" using c2 by (simp add: is_leap_def)
    moreover have "y div 4 = A + 1" "y div 100 = B" "y div 400 = C" using a b c c2 n by simp_all
    ultimately show ?thesis unfolding s t by simp
  next
    case c3
    then have n: "y mod 4 = 0" using d by meson
    have "\<not> is_leap y" using c3 by (simp add: is_leap_def)
    moreover have "y div 4 = A + 1" "y div 100 = B + 1" "y div 400 = C" using a b c c3 n by simp_all
    ultimately show ?thesis unfolding s t by simp
  next
    case c4
    then have n: "y mod 100 = 0" "y mod 4 = 0" using d e by meson+
    have "is_leap y" using c4 n by (simp add: is_leap_def)
    moreover have "y div 4 = A + 1" "y div 100 = B + 1" "y div 400 = C + 1" using a b c c4 n by simp_all
    ultimately show ?thesis unfolding s t by simp
  qed
qed

lemma dby_mono: "y1 \<le> y2 \<Longrightarrow> days_before_year y1 \<le> days_before_year y2"
proof (induction y2 rule: int_ge_induct)
  case base
  show ?case by simp
next
  case (step i)
  have "days_before_year i \<le> days_before_year (i + 1)"
    by (simp add: dby_step)
  with step show ?case by linarith
qed

lemma month_cases:
  "1 \<le> m \<Longrightarrow> m \<le> 12 \<Longrightarrow>
     m = 1 \<or> m = 2 \<or> m = 3 \<or> m = 4 \<or> m = 5 \<or> m = 6 \<or> m = 7 \<or> m = 8 \<or> m = 9 \<or> m = 10 \<or> m = 11 \<or> m = (12::int)"
  by arith

lemma dim_pos: "1 \<le> m \<Longrightarrow> m \<le> 12 \<Longrightarrow> 28 \<le> days_in_month y m"
  using month_cases[of m] by (auto simp: days_in_month_def DAYS_IN_MONTH_def)

lemma dbm_next:
  "1 \<le> m \<Longrightarrow> m < 12 \<Longrightarrow>
     days_before_month y (m + 1) = days_before_month y m + days_in_month y m"
  using month_cases[of m]
  by (auto simp: days_before_month_def days_in_month_def DAYS_BEFORE_MONTH_def DAYS_IN_MONTH_def)

lemma dbm_last:
  "days_before_month y 12 + days_in_month y 12 = (if is_leap y then 366 else 365)"
  by (simp add: days_before_month_def days_in_month_def DAYS_BEFORE_MONTH_def DAYS_IN_MONTH_def)

lemma dbm_mono:
  "m1 + 1 \<le> m2 \<Longrightarrow> 1 \<le> m1 \<Longrightarrow> m2 \<le> 12 \<Longrightarrow>
     days_before_month y m1 + days_in_month y m1 \<le> days_before_month y m2"
proof (induction m2 rule: int_ge_induct)
  case base
  then show ?case by (simp add: dbm_next)
next
  case (step i)
  have "days_before_month y (i + 1) = days_before_month y i + days_in_month y i"
    using step.hyps step.prems by (intro dbm_next) auto
  moreover have "28 \<le> days_in_month y i"
    using step.hyps step.prems by (intro dim_pos) auto
  ultimately show ?case using step by linarith
qed

lemma day_of_year_le:
  assumes "1 \<le> m" "m \<le> 12" "d \<le> days_in_month y m"
  shows "days_before_month y m + d \<le> (if is_leap y then 366 else 365)"
proof (cases "m = 12")
  case True
  with assms dbm_last[of y] show ?thesis by (auto split: if_splits)
next
  case False
  then have "days_before_month y m + days_in_month y m \<le> days_before_month y 12"
    using assms by (intro dbm_mono) auto
  moreover have "28 \<le> days_in_month y 12" by (intro dim_pos) auto
  ultimately show ?thesis using assms dbm_last[of y] by (auto split: if_splits)
qed

lemma toordinal_mono:
  assumes a: "valid_date a" and b: "valid_date b" and le: "date_le a b"
  shows "toordinal a \<le> toordinal b"
proof -
  consider (yr) "year a < year b"
    | (mo) "year a = year b" "month a < month b"
    | (dy) "year a = year b" "month a = month b" "day a \<le> day b"
    using le unfolding date_le_def by meson
  then show ?thesis
  proof cases
    case yr
    have "days_before_month (year a) (month a) + day a \<le> (if is_leap (year a) then 366 else 365)"
      using a by (intro day_of_year_le) (auto simp: valid_date_def)
    then have "toordinal a \<le> days_before_year (year a + 1)"
      by (simp add: toordinal_def dby_step)
    also have "\<dots> \<le> days_before_year (year b)"
      using yr by (intro dby_mono) auto
    also have "\<dots> \<le> toordinal b"
    proof -
      have "0 \<le> days_before_month (year b) (month b)"
        using b month_cases[of "month b"]
        by (auto simp: valid_date_def days_before_month_def DAYS_BEFORE_MONTH_def)
      then show ?thesis using b by (simp add: toordinal_def valid_date_def)
    qed
    finally show ?thesis .
  next
    case mo
    have "days_before_month (year a) (month a) + days_in_month (year a) (month a)
            \<le> days_before_month (year a) (month b)"
      using a b mo by (intro dbm_mono) (auto simp: valid_date_def)
    then show ?thesis using a b mo by (simp add: toordinal_def valid_date_def)
  next
    case dy
    then show ?thesis by (simp add: toordinal_def)
  qed
qed

lemma strptime_date_valid: "strptime_date s = Inr d \<Longrightarrow> valid_date d"
  by (auto simp: strptime_date_def split: list.splits if_splits)

text \<open>
  Claim C2. For two date strings that \<open>strptime\<close> accepts, \<open>calculate_rental_days\<close> returns
  a number of days (it does not raise), that number is at least 1 whatever the order of
  the two dates, and when the start is not after the end in the calendar it is the
  difference of the two dates in days plus one.
\<close>

theorem rental_days_inclusive:
  assumes "strptime_date start_date = Inr a" and "strptime_date end_date = Inr b"
  shows "\<exists>n. calculate_rental_days start_date end_date = Inr n \<and> 1 \<le> n \<and>
           (date_le a b \<longrightarrow> n = (toordinal b - toordinal a) + 1)"
proof -
  have v: "valid_date a" "valid_date b"
    using assms by (auto dest: strptime_date_valid)
  have r: "calculate_rental_days start_date end_date = Inr (max 1 ((toordinal b - toordinal a) + 1))"
    using assms by (simp add: calculate_rental_days_def)
  have "date_le a b \<Longrightarrow> max 1 ((toordinal b - toordinal a) + 1) = (toordinal b - toordinal a) + 1"
    using toordinal_mono[OF v] by simp
  with r show ?thesis by auto
qed

text \<open>
  The theorem at the dates of the specification: 10 to 12 November 2025 is three days, a
  single day is one day, and the reversed range is one day too.
\<close>

theorem rental_days_inclusive_witness:
  "calculate_rental_days ''2025-11-10'' ''2025-11-12'' = Inr 3 \<and>
   calculate_rental_days ''2025-11-10'' ''2025-11-10'' = Inr 1 \<and>
   calculate_rental_days ''2025-11-12'' ''2025-11-10'' = Inr 1"
proof -
  have a: "strptime_date ''2025-11-10'' = Inr (Date 2025 11 10)" by code_simp
  have b: "strptime_date ''2025-11-12'' = Inr (Date 2025 11 12)" by code_simp
  have o: "toordinal (Date 2025 11 12) - toordinal (Date 2025 11 10) + 1 = 3" by code_simp
  have l: "date_le (Date 2025 11 10) (Date 2025 11 12)" "date_le (Date 2025 11 10) (Date 2025 11 10)"
    by (simp_all add: date_le_def)
  have "calculate_rental_days ''2025-11-10'' ''2025-11-12'' = Inr 3"
    using rental_days_inclusive[OF a b] l o by auto
  moreover have "calculate_rental_days ''2025-11-10'' ''2025-11-10'' = Inr 1"
    using rental_days_inclusive[OF a a] l by auto
  moreover have "calculate_rental_days ''2025-11-12'' ''2025-11-10'' = Inr 1"
    by code_simp
  ultimately show ?thesis by simp
qed

section \<open>Properties of the availability check\<close>

lemma select_packages_simps:
  "fst (select_packages package_id c) = filter (\<lambda>p. pkg_id p = package_id) (packages (db c))"
  "snd (select_packages package_id c) = c\<lparr>log := log c @ [Select Packages]\<rparr>"
  by (simp_all add: select_packages_def execute_select_def)

lemma get_bookings_fst:
  assumes "read_date (db c) s = Some ds" and "read_date (db c) e = Some de"
  shows "fst (get_bookings_for_package package_id s e c) =
     filter (\<lambda>b. bk_package_id b = package_id \<and> bk_status b \<noteq> ''cancelled'' \<and>
                  date_le (bk_start_date b) de \<and> date_le ds (bk_end_date b))
       (bookings (db c))"
  using assms
  by (simp add: get_bookings_for_package_def date_lte_def date_gte_def Let_def
        conj_commute conj_left_commute)

lemma get_bookings_snd:
  "snd (get_bookings_for_package package_id s e c) = c\<lparr>log := log c @ [Select Bookings]\<rparr>"
  by (simp add: get_bookings_for_package_def Let_def execute_select_def)

text \<open>
  Claim C1. When the package is found, the requested quantity is at most its stock and
  the store reads the two texts of the request as the dates \<open>ds\<close> and \<open>de\<close>,
  \<open>is_package_available\<close> adds up the quantities of the bookings of the package that are
  not cancelled and overlap the requested range in the calendar (the booking starts on or
  before \<open>de\<close> and ends on or after \<open>ds\<close>), subtracts the sum from the stock, and answers
  unavailable exactly when the request exceeds what remains, with the message that names
  the requested, remaining, booked and total counts; otherwise it answers available with
  the message that names how many units remain free.
\<close>

theorem availability_decision:
  assumes "filter (\<lambda>p. pkg_id p = package_id) (packages (db c)) = p # ps"
    and "qty \<le> pkg_stock p"
    and "read_date (db c) s = Some ds" and "read_date (db c) e = Some de"
  shows "fst (is_package_available package_id s e qty c) =
     (let booked_qty = sum_list (map bk_qty (filter (\<lambda>b. bk_package_id b = package_id \<and>
              bk_status b \<noteq> ''cancelled'' \<and> date_le (bk_start_date b) de \<and>
              date_le ds (bk_end_date b)) (bookings (db c))));
          remaining = pkg_stock p - booked_qty
      in if qty > remaining
         then (False, ''Not enough '' @ pkg_name p @ '' available. You need: '' @ str_int qty
                 @ '', We have: '' @ str_int remaining @ '' (already booked: ''
                 @ str_int booked_qty @ ''/'' @ str_int (pkg_stock p) @ '')'')
         else (True, pkg_name p @ '' is available ('' @ str_int remaining @ '' of ''
                 @ str_int (pkg_stock p) @ '' free for these dates)''))"
proof -
  let ?c1 = "c\<lparr>log := log c @ [Select Packages]\<rparr>"
  have sel: "select_packages package_id c = (p # ps, ?c1)"
    using assms(1) select_packages_simps[of package_id c] by (simp add: prod_eq_iff)
  have rd: "read_date (db ?c1) s = Some ds" "read_date (db ?c1) e = Some de"
    using assms(3,4) by simp_all
  have bk: "get_bookings_for_package package_id s e ?c1 =
      (filter (\<lambda>b. bk_package_id b = package_id \<and> bk_status b \<noteq> ''cancelled'' \<and>
                  date_le (bk_start_date b) de \<and> date_le ds (bk_end_date b))
         (bookings (db c)),
       c\<lparr>log := log c @ [Select Packages, Select Bookings]\<rparr>)"
    using get_bookings_fst[OF rd, of package_id] get_bookings_snd[of package_id s e ?c1]
    by (simp add: prod_eq_iff)
  show ?thesis
    using assms(2) by (simp add: is_package_available_def sel bk Let_def)
qed

text \<open>
  The theorem on the demo store. For 10 to 12 November, three of the five units are
  booked: two units are available, three are not. For a request written without the
  leading zeros, \<open>2025-11-1\<close> to \<open>2025-11-2\<close>, the booking of four units from 1 to 5
  November counts and the one from 9 to 13 November does not: two units are not
  available.
\<close>

theorem availability_decision_witness:
  "fst (is_package_available 1 ''2025-11-10'' ''2025-11-12'' 2 demo_client) =
     (True, ''Basic is available (2 of 5 free for these dates)'') \<and>
   fst (is_package_available 1 ''2025-11-10'' ''2025-11-12'' 3 demo_client) =
     (False, ''Not enough Basic available. You need: 3, We have: 2 (already booked: 3/5)'') \<and>
   fst (is_package_available 1 ''2025-11-1'' ''2025-11-2'' 2 demo_client) =
     (False, ''Not enough Basic available. You need: 2, We have: 1 (already booked: 4/5)'')"
proof -
  have f: "filter (\<lambda>p. pkg_id p = 1) (packages (db demo_client)) = demo_package # []"
    by (simp add: demo_client_def demo_store_def demo_package_def)
  have s2: "(2::int) \<le> pkg_stock demo_package" and s3: "(3::int) \<le> pkg_stock demo_package"
    by (simp_all add: demo_package_def)
  have r10: "read_date (db demo_client) ''2025-11-10'' = Some (Date 2025 11 10)"
    and r12: "read_date (db demo_client) ''2025-11-12'' = Some (Date 2025 11 12)"
    and r1: "read_date (db demo_client) ''2025-11-1'' = Some (Date 2025 11 1)"
    and r2: "read_date (db demo_client) ''2025-11-2'' = Some (Date 2025 11 2)"
    by code_simp+
  have b: "sum_list (map bk_qty (filter (\<lambda>b. bk_package_id b = 1 \<and>
              bk_status b \<noteq> ''cancelled'' \<and> date_le (bk_start_date b) (Date 2025 11 12) \<and>
              date_le (Date 2025 11 10) (bk_end_date b)) (bookings (db demo_client)))) = 3"
    by code_simp
  have b': "sum_list (map bk_qty (filter (\<lambda>b. bk_package_id b = 1 \<and>
              bk_status b \<noteq> ''cancelled'' \<and> date_le (bk_start_date b) (Date 2025 11 2) \<and>
              date_le (Date 2025 11 1) (bk_end_date b)) (bookings (db demo_client)))) = 4"
    by code_simp
  have n: "pkg_name demo_package = ''Basic''" "pkg_stock demo_package = 5"
    by (simp_all add: demo_package_def)
  have d: "str_int 1 = ''1''" "str_int 2 = ''2''" "str_int 3 = ''3''" "str_int 4 = ''4''"
    "str_int 5 = ''5''"
    by code_simp+
  show ?thesis
    using availability_decision[OF f s2 r10 r12] availability_decision[OF f s3 r10 r12]
          availability_decision[OF f s2 r1 r2]
    by (simp add: b b' n d)
qed

text \<open>
  Claim C6. When the package is found and the requested quantity exceeds its stock,
  \<open>is_package_available\<close> answers unavailable with the message that the requested quantity
  exceeds the total stock, and the only request it has executed is the select on the
  packages table: the bookings are not queried.
\<close>

theorem over_stock_short_circuit:
  assumes "filter (\<lambda>p. pkg_id p = package_id) (packages (db c)) = p # ps"
    and "pkg_stock p < qty"
  shows "is_package_available package_id s e qty c =
     ((False, ''Requested quantity ('' @ str_int qty @ '') exceeds total stock (''
         @ str_int (pkg_stock p) @ '') for '' @ pkg_name p),
      c\<lparr>log := log c @ [Select Packages]\<rparr>)"
proof -
  have sel: "select_packages package_id c = (p # ps, c\<lparr>log := log c @ [Select Packages]\<rparr>)"
    using assms(1) select_packages_simps[of package_id c] by (simp add: prod_eq_iff)
  show ?thesis
    using assms(2) by (simp add: is_package_available_def sel Let_def)
qed

text \<open>
  The theorem on the demo store, for six units of a package that has five.
\<close>

theorem over_stock_short_circuit_witness:
  "is_package_available 1 ''2025-11-10'' ''2025-11-12'' 6 demo_client =
     ((False, ''Requested quantity (6) exceeds total stock (5) for Basic''),
      demo_client\<lparr>log := [Select Packages]\<rparr>)"
proof -
  have f: "filter (\<lambda>p. pkg_id p = 1) (packages (db demo_client)) = demo_package # []"
    by (simp add: demo_client_def demo_store_def demo_package_def)
  have s: "pkg_stock demo_package < 6" by (simp add: demo_package_def)
  have n: "pkg_name demo_package = ''Basic''" "pkg_stock demo_package = 5"
    by (simp_all add: demo_package_def)
  have d: "str_int 6 = ''6''" "str_int 5 = ''5''" by code_simp+
  have l: "log demo_client = []" by (simp add: demo_client_def)
  show ?thesis
    using over_stock_short_circuit[OF f s, of "''2025-11-10''" "''2025-11-12''"]
    by (simp add: n d l)
qed

lemma select_packages_none:
  "package_id \<notin> pkg_id ` set (packages (db c)) \<Longrightarrow>
     select_packages package_id c = ([], c\<lparr>log := log c @ [Select Packages]\<rparr>)"
  by (auto simp: select_packages_def execute_select_def filter_empty_conv)

text \<open>
  Claim C4. For an identifier that no package of the store has, \<open>calculate_total_price\<close>
  raises the error "Package ... not found" and \<open>is_package_available\<close> returns \<open>False\<close>
  with the same message as its detail, without raising.
\<close>

theorem missing_package_asymmetry:
  assumes "package_id \<notin> pkg_id ` set (packages (db c))"
  shows "fst (calculate_total_price rnd package_id s e qty include_dj c) =
           Inl (PackageNotFound (''Package '' @ str_int package_id @ '' not found'')) \<and>
         fst (is_package_available package_id s e qty c) =
           (False, ''Package '' @ str_int package_id @ '' not found'')"
  using select_packages_none[OF assms]
  by (simp add: calculate_total_price_def is_package_available_def)

text \<open>
  The theorem on the demo store, for the identifier 7.
\<close>

theorem missing_package_asymmetry_witness:
  "fst (calculate_total_price (\<lambda>x. x) 7 ''2025-11-10'' ''2025-11-12'' 1 True demo_client) =
     Inl (PackageNotFound ''Package 7 not found'') \<and>
   fst (is_package_available 7 ''2025-11-10'' ''2025-11-12'' 1 demo_client) =
     (False, ''Package 7 not found'')"
proof -
  have f: "7 \<notin> pkg_id ` set (packages (db demo_client))"
    by (simp add: demo_client_def demo_store_def demo_package_def)
  have d: "str_int 7 = ''7''" by code_simp
  show ?thesis
    using missing_package_asymmetry[OF f, of "\<lambda>x. x" "''2025-11-10''" "''2025-11-12''" 1 True]
    by (simp add: d)
qed

text \<open>
  Claim C9. \<open>is_package_available\<close> leaves the store as it was, whatever its arguments,
  and the requests it executes are selects: the one on the packages table, followed on the
  paths that reach it by the one on the bookings table.
\<close>

theorem availability_reads_only:
  "db (snd (is_package_available package_id s e qty c)) = db c \<and>
   (log (snd (is_package_available package_id s e qty c)) = log c @ [Select Packages] \<or>
    log (snd (is_package_available package_id s e qty c)) = log c @ [Select Packages, Select Bookings])"
  by (simp add: is_package_available_def select_packages_def get_bookings_for_package_def
        execute_select_def Let_def split: list.splits)

section \<open>Properties of the pricing\<close>

lemma get_dj_rate_fst:
  "fst (get_dj_rate c) =
     (case filter (\<lambda>r. set_id r = 1) (settings (db c)) of
        [] \<Rightarrow> 150 | row # _ \<Rightarrow> set_dj_daily_rate row)"
  by (simp add: get_dj_rate_def select_settings_def split: list.splits)

lemma get_dj_rate_snd: "snd (get_dj_rate c) = c\<lparr>log := log c @ [Select Settings]\<rparr>"
  by (simp add: get_dj_rate_def select_settings_def execute_select_def split: list.splits)

lemma get_dj_rate_eq:
  "get_dj_rate c = (fst (get_dj_rate c), c\<lparr>log := log c @ [Select Settings]\<rparr>)"
  using get_dj_rate_snd[of c] by (simp add: prod_eq_iff)

lemma get_dj_rate_log: "fst (get_dj_rate (c\<lparr>log := l\<rparr>)) = fst (get_dj_rate c)"
  by (simp add: get_dj_rate_fst)

text \<open>
  Claim C8. The DJ rate setting is the row of the settings table with identifier 1, the
  row \<open>get_dj_rate\<close> selects. When the table has no such row (an empty table included)
  \<open>get_dj_rate\<close> returns 150; when it has one, \<open>get_dj_rate\<close> returns the daily rate of the
  first row the select yields.
\<close>

theorem dj_rate_default:
  "(1 \<notin> set_id ` set (settings (db c)) \<longrightarrow> fst (get_dj_rate c) = 150) \<and>
   (\<forall>row rest. filter (\<lambda>r. set_id r = 1) (settings (db c)) = row # rest \<longrightarrow>
      fst (get_dj_rate c) = set_dj_daily_rate row)"
proof -
  have "1 \<notin> set_id ` set (settings (db c)) \<Longrightarrow>
          filter (\<lambda>r. set_id r = 1) (settings (db c)) = []"
    by (auto simp: filter_empty_conv)
  then show ?thesis by (auto simp: get_dj_rate_fst)
qed

text \<open>
  The theorem on the demo store with its settings removed, and with a rate of 180 set.
\<close>

theorem dj_rate_default_witness:
  "fst (get_dj_rate (demo_client\<lparr>db := demo_store\<lparr>settings := []\<rparr>\<rparr>)) = 150 \<and>
   fst (get_dj_rate (demo_client\<lparr>db := demo_store\<lparr>settings :=
          [\<lparr>set_id = 1, set_dj_daily_rate = 180\<rparr>]\<rparr>\<rparr>)) = 180"
proof -
  have a: "1 \<notin> set_id ` set (settings (db (demo_client\<lparr>db := demo_store\<lparr>settings := []\<rparr>\<rparr>)))"
    by simp
  have b: "filter (\<lambda>r. set_id r = 1) (settings (db (demo_client\<lparr>db := demo_store\<lparr>settings :=
          [\<lparr>set_id = 1, set_dj_daily_rate = 180\<rparr>]\<rparr>\<rparr>))) = \<lparr>set_id = 1, set_dj_daily_rate = 180\<rparr> # []"
    by simp
  show ?thesis
    using dj_rate_default[of "demo_client\<lparr>db := demo_store\<lparr>settings := []\<rparr>\<rparr>"] a
          dj_rate_default[of "demo_client\<lparr>db := demo_store\<lparr>settings :=
          [\<lparr>set_id = 1, set_dj_daily_rate = 180\<rparr>]\<rparr>\<rparr>"] b
    by simp
qed

text \<open>
  Claim C3. When the package is found with daily rate \<open>r\<close> and the dates give \<open>days\<close>
  rental days, \<open>calculate_total_price\<close> returns the base price \<open>r \<times> days \<times> qty\<close> as the
  total when no DJ is booked, and the base price plus \<open>dj_rate \<times> days \<times> qty\<close> when one is,
  \<open>dj_rate\<close> being what \<open>get_dj_rate\<close> reads from the store; with it comes the breakdown of
  the seven fields days, daily_rate, qty, base_price, dj_rate, dj_price and total, the two
  DJ fields being zero when no DJ is booked. The products and the sum are those of float
  arithmetic, with the rounding \<open>rnd\<close>.
\<close>

theorem total_price_formula:
  assumes "filter (\<lambda>p. pkg_id p = package_id) (packages (db c)) = p # ps"
    and "calculate_rental_days s e = Inr days"
  shows "fst (calculate_total_price rnd package_id s e qty include_dj c) =
     (let r = pkg_daily_rate p;
          base_price = float_mul rnd (float_mul rnd r (float_of_int rnd days)) (float_of_int rnd qty);
          dj_rate = (if include_dj then fst (get_dj_rate c) else 0);
          dj_price = (if include_dj
             then float_mul rnd (float_mul rnd dj_rate (float_of_int rnd days)) (float_of_int rnd qty)
             else 0);
          total = (if include_dj then float_add rnd base_price dj_price else base_price)
      in Inr (total, \<lparr>bd_days = days, bd_daily_rate = r, bd_qty = qty, bd_base_price = base_price,
                       bd_dj_rate = dj_rate, bd_dj_price = dj_price, bd_total = total\<rparr>))"
proof -
  have sel: "select_packages package_id c = (p # ps, c\<lparr>log := log c @ [Select Packages]\<rparr>)"
    using assms(1) select_packages_simps[of package_id c] by (simp add: prod_eq_iff)
  have dj: "get_dj_rate (c\<lparr>log := log c @ [Select Packages]\<rparr>) =
      (fst (get_dj_rate c), c\<lparr>log := log c @ [Select Packages, Select Settings]\<rparr>)"
    using get_dj_rate_eq[of "c\<lparr>log := log c @ [Select Packages]\<rparr>"]
    by (simp add: get_dj_rate_log)
  show ?thesis
    by (simp add: calculate_total_price_def sel assms(2) dj Let_def)
qed

text \<open>
  The theorem at the numbers of the specification, in exact arithmetic: a daily rate of
  75, one unit, three days and a DJ rate of 150 cost 675 with a DJ and 225 without.
\<close>

theorem total_price_formula_witness:
  "fst (calculate_total_price (\<lambda>x. x) 1 ''2025-11-10'' ''2025-11-12'' 1 True demo_client) =
     Inr (675, \<lparr>bd_days = 3, bd_daily_rate = 75, bd_qty = 1, bd_base_price = 225,
                 bd_dj_rate = 150, bd_dj_price = 450, bd_total = 675\<rparr>) \<and>
   fst (calculate_total_price (\<lambda>x. x) 1 ''2025-11-10'' ''2025-11-12'' 1 False demo_client) =
     Inr (225, \<lparr>bd_days = 3, bd_daily_rate = 75, bd_qty = 1, bd_base_price = 225,
                 bd_dj_rate = 0, bd_dj_price = 0, bd_total = 225\<rparr>)"
proof -
  have f: "filter (\<lambda>p. pkg_id p = 1) (packages (db demo_client)) = demo_package # []"
    by (simp add: demo_client_def demo_store_def demo_package_def)
  have d: "calculate_rental_days ''2025-11-10'' ''2025-11-12'' = Inr 3" by code_simp
  have r: "pkg_daily_rate demo_package = 75" by (simp add: demo_package_def)
  have j: "fst (get_dj_rate demo_client) = 150"
    by (simp add: get_dj_rate_fst demo_client_def demo_store_def)
  show ?thesis
    using total_price_formula[OF f d, of "\<lambda>x. x" 1 True]
          total_price_formula[OF f d, of "\<lambda>x. x" 1 False]
    by (simp add: r j float_mul_def float_add_def float_of_int_def)
qed

text \<open>
  Claim C10. Without a DJ, \<open>calculate_total_price\<close> executes the select on the packages
  table and nothing else, on every path, so the settings table is not read; when the
  package is found and the dates are valid, the total it returns is the base price and
  the DJ rate and DJ price of the breakdown are zero. With a DJ, on that same path, the
  select on the settings table follows the one on the packages table.
\<close>

theorem settings_read_only_with_dj:
  "snd (calculate_total_price rnd package_id s e qty False c) = c\<lparr>log := log c @ [Select Packages]\<rparr> \<and>
   (\<forall>p ps days. filter (\<lambda>p. pkg_id p = package_id) (packages (db c)) = p # ps \<longrightarrow>
      calculate_rental_days s e = Inr days \<longrightarrow>
        (let base_price = float_mul rnd (float_mul rnd (pkg_daily_rate p) (float_of_int rnd days))
                            (float_of_int rnd qty)
         in fst (calculate_total_price rnd package_id s e qty False c) =
              Inr (base_price, \<lparr>bd_days = days, bd_daily_rate = pkg_daily_rate p, bd_qty = qty,
                     bd_base_price = base_price, bd_dj_rate = 0, bd_dj_price = 0,
                     bd_total = base_price\<rparr>)) \<and>
        snd (calculate_total_price rnd package_id s e qty True c) =
          c\<lparr>log := log c @ [Select Packages, Select Settings]\<rparr>)"
proof -
  have a: "snd (calculate_total_price rnd package_id s e qty False c) =
             c\<lparr>log := log c @ [Select Packages]\<rparr>"
    by (simp add: calculate_total_price_def select_packages_def execute_select_def Let_def
          split: list.splits sum.splits)
  have b: "snd (calculate_total_price rnd package_id s e qty True c) =
          c\<lparr>log := log c @ [Select Packages, Select Settings]\<rparr>"
    if "filter (\<lambda>p. pkg_id p = package_id) (packages (db c)) = p # ps"
      and "calculate_rental_days s e = Inr days" for p ps days
  proof -
    have sel: "select_packages package_id c = (p # ps, c\<lparr>log := log c @ [Select Packages]\<rparr>)"
      using that(1) select_packages_simps[of package_id c] by (simp add: prod_eq_iff)
    have dj: "get_dj_rate (c\<lparr>log := log c @ [Select Packages]\<rparr>) =
        (fst (get_dj_rate c), c\<lparr>log := log c @ [Select Packages, Select Settings]\<rparr>)"
      using get_dj_rate_eq[of "c\<lparr>log := log c @ [Select Packages]\<rparr>"]
      by (simp add: get_dj_rate_log)
    show ?thesis
      by (simp add: calculate_total_price_def sel that(2) dj Let_def)
  qed
  have c: "fst (calculate_total_price rnd package_id s e qty False c) =
              Inr (float_mul rnd (float_mul rnd (pkg_daily_rate p) (float_of_int rnd days))
                            (float_of_int rnd qty), \<lparr>bd_days = days, bd_daily_rate = pkg_daily_rate p, bd_qty = qty,
                     bd_base_price = float_mul rnd (float_mul rnd (pkg_daily_rate p) (float_of_int rnd days))
                            (float_of_int rnd qty), bd_dj_rate = 0, bd_dj_price = 0,
                     bd_total = float_mul rnd (float_mul rnd (pkg_daily_rate p) (float_of_int rnd days))
                            (float_of_int rnd qty)\<rparr>)"
    if "filter (\<lambda>p. pkg_id p = package_id) (packages (db c)) = p # ps"
      and "calculate_rental_days s e = Inr days" for p ps days
  proof -
    have sel: "select_packages package_id c = (p # ps, c\<lparr>log := log c @ [Select Packages]\<rparr>)"
      using that(1) select_packages_simps[of package_id c] by (simp add: prod_eq_iff)
    show ?thesis
      by (simp add: calculate_total_price_def sel that(2) Let_def)
  qed
  show ?thesis using a b c by (simp add: Let_def)
qed

text \<open>
  The theorem on the demo store: the requests executed without and with a DJ.
\<close>

theorem settings_read_only_with_dj_witness:
  "log (snd (calculate_total_price (\<lambda>x. x) 1 ''2025-11-10'' ''2025-11-12'' 1 False demo_client)) =
     [Select Packages] \<and>
   fst (calculate_total_price (\<lambda>x. x) 1 ''2025-11-10'' ''2025-11-12'' 1 False demo_client) =
     Inr (225, \<lparr>bd_days = 3, bd_daily_rate = 75, bd_qty = 1, bd_base_price = 225,
                 bd_dj_rate = 0, bd_dj_price = 0, bd_total = 225\<rparr>) \<and>
   log (snd (calculate_total_price (\<lambda>x. x) 1 ''2025-11-10'' ''2025-11-12'' 1 True demo_client)) =
     [Select Packages, Select Settings]"
proof -
  have f: "filter (\<lambda>p. pkg_id p = 1) (packages (db demo_client)) = demo_package # []"
    by (simp add: demo_client_def demo_store_def demo_package_def)
  have d: "calculate_rental_days ''2025-11-10'' ''2025-11-12'' = Inr 3" by code_simp
  have r: "pkg_daily_rate demo_package = 75" by (simp add: demo_package_def)
  have l: "log demo_client = []" by (simp add: demo_client_def)
  show ?thesis
    using settings_read_only_with_dj[of "\<lambda>x. x" 1 "''2025-11-10''" "''2025-11-12''" 1 demo_client] f d
    by (simp add: r l Let_def float_mul_def float_of_int_def)
qed

section \<open>Properties of the overlap query\<close>

text \<open>
  Claim C5. When the store reads the two texts of the request as the dates \<open>ds\<close> and
  \<open>de\<close>, the bookings \<open>get_bookings_for_package\<close> returns are exactly the bookings of the
  store that are of the given package, are not cancelled, and whose range overlaps the
  requested one in the calendar: the requested start is on or before the booking's end
  and the requested end is on or after the booking's start. So a store with one more
  booking that is cancelled, or whose range does not overlap the requested one, gets the
  same answer from \<open>is_package_available\<close> as the store without it, whatever the quantity
  of that booking.
\<close>

theorem overlap_query_exact:
  assumes "read_date (db c) s = Some ds" and "read_date (db c) e = Some de"
  shows "set (fst (get_bookings_for_package package_id s e c)) =
     {b \<in> set (bookings (db c)). bk_package_id b = package_id \<and> bk_status b \<noteq> ''cancelled'' \<and>
        date_le ds (bk_end_date b) \<and> date_le (bk_start_date b) de} \<and>
   (\<forall>b xs ys qty. bk_status b = ''cancelled'' \<or>
        \<not> (date_le ds (bk_end_date b) \<and> date_le (bk_start_date b) de) \<longrightarrow>
      fst (is_package_available package_id s e qty (c\<lparr>db := (db c)\<lparr>bookings := xs @ b # ys\<rparr>\<rparr>)) =
      fst (is_package_available package_id s e qty (c\<lparr>db := (db c)\<lparr>bookings := xs @ ys\<rparr>\<rparr>)))"
proof -
  have a: "set (fst (get_bookings_for_package package_id s e c)) =
     {b \<in> set (bookings (db c)). bk_package_id b = package_id \<and> bk_status b \<noteq> ''cancelled'' \<and>
        date_le ds (bk_end_date b) \<and> date_le (bk_start_date b) de}"
    by (auto simp: get_bookings_fst[OF assms])
  have b: "fst (is_package_available package_id s e qty (c\<lparr>db := (db c)\<lparr>bookings := xs @ b # ys\<rparr>\<rparr>)) =
      fst (is_package_available package_id s e qty (c\<lparr>db := (db c)\<lparr>bookings := xs @ ys\<rparr>\<rparr>))"
    if "bk_status b = ''cancelled'' \<or>
        \<not> (date_le ds (bk_end_date b) \<and> date_le (bk_start_date b) de)" for b xs ys qty
    using that assms
    by (auto simp: is_package_available_def select_packages_def execute_select_def
          get_bookings_for_package_def date_lte_def date_gte_def Let_def split: list.splits)
  show ?thesis using a b by blast
qed

text \<open>
  The theorem on the demo store. For 10 to 12 November the query returns the pending
  booking alone: the cancelled one is left out, and so are the one that ended on the 5th
  and the one of October. For 6 to 8 November it returns nothing. For the request
  written \<open>2025-11-1\<close> to \<open>2025-11-2\<close> it returns the booking of 1 to 5 November alone.
  Taking the cancelled booking of a hundred units out of the store, or a booking that
  does not overlap, changes no answer.
\<close>

theorem overlap_query_exact_witness:
  "set (fst (get_bookings_for_package 1 ''2025-11-10'' ''2025-11-12'' demo_client)) =
     {demo_booking 1 (Date 2025 11 9) (Date 2025 11 13) 3 ''pending''} \<and>
   set (fst (get_bookings_for_package 1 ''2025-11-06'' ''2025-11-08'' demo_client)) = {} \<and>
   set (fst (get_bookings_for_package 1 ''2025-11-1'' ''2025-11-2'' demo_client)) =
     {demo_booking 3 (Date 2025 11 1) (Date 2025 11 5) 4 ''confirmed''} \<and>
   fst (is_package_available 1 ''2025-11-10'' ''2025-11-12'' 2 demo_client) =
     fst (is_package_available 1 ''2025-11-10'' ''2025-11-12'' 2
       (demo_client\<lparr>db := demo_store\<lparr>bookings :=
          [demo_booking 1 (Date 2025 11 9) (Date 2025 11 13) 3 ''pending'',
           demo_booking 3 (Date 2025 11 1) (Date 2025 11 5) 4 ''confirmed'',
           demo_booking 4 (Date 2025 10 11) (Date 2025 10 12) 1 ''confirmed'']\<rparr>\<rparr>)) \<and>
   fst (is_package_available 1 ''2025-11-06'' ''2025-11-08'' 5 demo_client) =
     fst (is_package_available 1 ''2025-11-06'' ''2025-11-08'' 5
       (demo_client\<lparr>db := demo_store\<lparr>bookings :=
          [demo_booking 1 (Date 2025 11 9) (Date 2025 11 13) 3 ''pending'',
           demo_booking 2 (Date 2025 11 9) (Date 2025 11 13) 100 ''cancelled'',
           demo_booking 4 (Date 2025 10 11) (Date 2025 10 12) 1 ''confirmed'']\<rparr>\<rparr>))"
proof -
  let ?b1 = "demo_booking 1 (Date 2025 11 9) (Date 2025 11 13) 3 ''pending''"
  let ?b2 = "demo_booking 2 (Date 2025 11 9) (Date 2025 11 13) 100 ''cancelled''"
  let ?b3 = "demo_booking 3 (Date 2025 11 1) (Date 2025 11 5) 4 ''confirmed''"
  let ?b4 = "demo_booking 4 (Date 2025 10 11) (Date 2025 10 12) 1 ''confirmed''"
  have r10: "read_date (db demo_client) ''2025-11-10'' = Some (Date 2025 11 10)"
    and r12: "read_date (db demo_client) ''2025-11-12'' = Some (Date 2025 11 12)"
    and r6: "read_date (db demo_client) ''2025-11-06'' = Some (Date 2025 11 6)"
    and r8: "read_date (db demo_client) ''2025-11-08'' = Some (Date 2025 11 8)"
    and r1: "read_date (db demo_client) ''2025-11-1'' = Some (Date 2025 11 1)"
    and r2: "read_date (db demo_client) ''2025-11-2'' = Some (Date 2025 11 2)"
    by code_simp+
  have f1: "filter (\<lambda>b. bk_package_id b = 1 \<and> bk_status b \<noteq> ''cancelled'' \<and>
        date_le (Date 2025 11 10) (bk_end_date b) \<and> date_le (bk_start_date b) (Date 2025 11 12))
        (bookings (db demo_client)) = [?b1]"
    by code_simp
  have f2: "filter (\<lambda>b. bk_package_id b = 1 \<and> bk_status b \<noteq> ''cancelled'' \<and>
        date_le (Date 2025 11 6) (bk_end_date b) \<and> date_le (bk_start_date b) (Date 2025 11 8))
        (bookings (db demo_client)) = []"
    by code_simp
  have f3: "filter (\<lambda>b. bk_package_id b = 1 \<and> bk_status b \<noteq> ''cancelled'' \<and>
        date_le (Date 2025 11 1) (bk_end_date b) \<and> date_le (bk_start_date b) (Date 2025 11 2))
        (bookings (db demo_client)) = [?b3]"
    by code_simp
  have c: "bk_status ?b2 = ''cancelled''" by (simp add: demo_booking_def)
  have n: "\<not> (date_le (Date 2025 11 6) (bk_end_date ?b3) \<and>
              date_le (bk_start_date ?b3) (Date 2025 11 8))"
    by code_simp
  have d1: "demo_client\<lparr>db := (db demo_client)\<lparr>bookings := [?b1] @ ?b2 # [?b3, ?b4]\<rparr>\<rparr> = demo_client"
    by (simp add: demo_client_def demo_store_def)
  have d2: "demo_client\<lparr>db := (db demo_client)\<lparr>bookings := [?b1, ?b2] @ ?b3 # [?b4]\<rparr>\<rparr> = demo_client"
    by (simp add: demo_client_def demo_store_def)
  have d3: "db demo_client = demo_store" by (simp add: demo_client_def)
  note t1 = overlap_query_exact[OF r10 r12, of 1]
  note t2 = overlap_query_exact[OF r6 r8, of 1]
  note t3 = overlap_query_exact[OF r1 r2, of 1]
  have "set (fst (get_bookings_for_package 1 ''2025-11-10'' ''2025-11-12'' demo_client)) = {?b1}"
    using t1 f1 by (simp flip: set_filter)
  moreover have "set (fst (get_bookings_for_package 1 ''2025-11-06'' ''2025-11-08'' demo_client)) = {}"
    using t2 f2 by (simp flip: set_filter)
  moreover have "set (fst (get_bookings_for_package 1 ''2025-11-1'' ''2025-11-2'' demo_client)) = {?b3}"
    using t3 f3 by (simp flip: set_filter)
  moreover have "fst (is_package_available 1 ''2025-11-10'' ''2025-11-12'' 2 demo_client) =
     fst (is_package_available 1 ''2025-11-10'' ''2025-11-12'' 2
       (demo_client\<lparr>db := demo_store\<lparr>bookings := [?b1, ?b3, ?b4]\<rparr>\<rparr>))"
    using conjunct2[OF t1, rule_format, of ?b2 2 "[?b1]" "[?b3, ?b4]"] c d1 d3 by simp
  moreover have "fst (is_package_available 1 ''2025-11-06'' ''2025-11-08'' 5 demo_client) =
     fst (is_package_available 1 ''2025-11-06'' ''2025-11-08'' 5
       (demo_client\<lparr>db := demo_store\<lparr>bookings := [?b1, ?b2, ?b4]\<rparr>\<rparr>))"
    using conjunct2[OF t2, rule_format, of ?b3 5 "[?b1, ?b2]" "[?b4]"] n d2 d3 by simp
  ultimately show ?thesis by simp
qed

section \<open>Properties of the formatter\<close>

lemma digit_char_is_digit: "k < 10 \<Longrightarrow> is_digit (digit_char k)"
  by (simp add: is_digit_def digit_char_def)

lemma str_nat_digits: "list_all is_digit (str_nat n)"
proof (induction n rule: str_nat.induct)
  case (1 n)
  show ?case
  proof (cases "n < 10")
    case True
    then show ?thesis by (subst str_nat.simps) (simp add: digit_char_is_digit)
  next
    case False
    then show ?thesis using 1 by (subst str_nat.simps) (simp add: digit_char_is_digit)
  qed
qed

lemma str_nat_nonempty: "str_nat n \<noteq> []"
  by (subst str_nat.simps) simp

lemma is_digit_not_dash: "is_digit c \<Longrightarrow> c \<noteq> CHR ''-''"
  by (auto simp: is_digit_def)

lemma is_digit_not_newline: "is_digit c \<Longrightarrow> c \<noteq> CHR 0x0A"
  by (auto simp: is_digit_def)

lemma str_nat_no_newline: "CHR 0x0A \<notin> set (str_nat n)"
  using str_nat_digits[of n] is_digit_not_newline by (auto simp: list_all_iff)

lemma str_int_no_newline: "CHR 0x0A \<notin> set (str_int i)"
  by (simp add: str_int_def str_nat_no_newline)

lemma digit_char_no_newline: "k < 10 \<Longrightarrow> digit_char k \<noteq> CHR 0x0A"
  by (intro is_digit_not_newline digit_char_is_digit)

lemma format_2f_no_newline: "CHR 0x0A \<notin> set (format_2f x)"
proof -
  define n where "n = nat (round_half_even (\<bar>x\<bar> * 100))"
  have "digit_char (n mod 100 div 10) \<noteq> CHR 0x0A" "digit_char (n mod 10) \<noteq> CHR 0x0A"
    by (intro digit_char_no_newline; simp)+
  then show ?thesis
    using str_nat_no_newline[of "n div 100"]
    by (auto simp: format_2f_def Let_def n_def)
qed

lemma unsigned_two_decimals_str:
  "j < 10 \<Longrightarrow> k < 10 \<Longrightarrow>
     unsigned_two_decimals (str_nat q @ ''.'' @ [digit_char j, digit_char k])"
  using str_nat_digits[of q]
  by (simp add: unsigned_two_decimals_def digit_char_is_digit str_nat_nonempty list_all_iff)

lemma format_2f_two_decimals: "two_decimal_places (format_2f x)"
proof -
  define n where "n = nat (round_half_even (\<bar>x\<bar> * 100))"
  define body where "body = str_nat (n div 100) @ ''.'' @ [digit_char (n mod 100 div 10), digit_char (n mod 10)]"
  have u: "unsigned_two_decimals body"
    unfolding body_def by (intro unsigned_two_decimals_str) auto
  obtain c cs where cs: "str_nat (n div 100) = c # cs"
    using str_nat_nonempty[of "n div 100"] by (cases "str_nat (n div 100)") auto
  have "is_digit c" using str_nat_digits[of "n div 100"] cs by simp
  then have c: "c \<noteq> CHR ''-''" by (rule is_digit_not_dash)
  have f: "format_2f x = (if x < 0 then CHR ''-'' # body else body)"
    by (simp add: format_2f_def Let_def n_def body_def)
  show ?thesis
  proof (cases "x < 0")
    case True
    then show ?thesis using u f by (simp add: two_decimal_places_def)
  next
    case False
    then have "format_2f x = body" using f by simp
    moreover have "body = c # (cs @ ''.'' @ [digit_char (n mod 100 div 10), digit_char (n mod 10)])"
      by (simp add: body_def cs)
    ultimately show ?thesis using u c by (simp add: two_decimal_places_def)
  qed
qed

lemma split_lines_nonempty: "split_lines s \<noteq> []"
  by (induction s) (auto split: list.splits)

lemma split_lines_single: "CHR 0x0A \<notin> set l \<Longrightarrow> split_lines l = [l]"
  by (induction l) auto

lemma split_lines_append:
  "CHR 0x0A \<notin> set l \<Longrightarrow> split_lines (l @ CHR 0x0A # r) = l # split_lines r"
  by (induction l) auto

lemma times_sign_no_newline: "CHR 0x0A \<notin> set times_sign"
  by (simp add: times_sign_def)

lemma equipment_line_no_newline: "CHR 0x0A \<notin> set (equipment_line b)"
  by (simp add: equipment_line_def format_2f_no_newline str_int_no_newline times_sign_no_newline)

lemma dj_line_no_newline: "CHR 0x0A \<notin> set (dj_line b)"
  by (simp add: dj_line_def format_2f_no_newline str_int_no_newline times_sign_no_newline)

lemma total_line_no_newline: "CHR 0x0A \<notin> set (total_line b)"
  by (simp add: total_line_def format_2f_no_newline)

lemma split_lines_format:
  "split_lines (format_price_breakdown b) =
     equipment_line b # (if 0 < bd_dj_price b then [dj_line b] else []) @ [total_line b]"
  by (simp add: format_price_breakdown_def Let_def split_lines_append split_lines_single
        equipment_line_no_newline dj_line_no_newline total_line_no_newline)

lemma round_half_even_of_int: "round_half_even (of_int k) = k"
  by (simp add: round_half_even_def Let_def)

lemma format_2f_of_nat: "format_2f (of_nat k) = str_nat k @ ''.00''"
proof -
  have "\<bar>real k\<bar> * 100 = of_int (int (k * 100))" by simp
  then have "round_half_even (\<bar>real k\<bar> * 100) = int (k * 100)"
    by (simp only: round_half_even_of_int)
  then have n: "nat (round_half_even (\<bar>real k\<bar> * 100)) = k * 100"
    by (simp only: nat_int)
  have m: "k * 100 mod 10 = 0" by presburger
  have z: "digit_char 0 = CHR ''0''" by code_simp
  show ?thesis
    unfolding format_2f_def Let_def n by (simp add: z m)
qed

text \<open>
  Claim C7. The text \<open>format_price_breakdown\<close> returns has these lines: the equipment
  line (rate per day, days, quantity, base price), then the DJ line exactly when the DJ
  price is greater than zero, then the total line. Every amount in them is written by
  \<open>format_2f\<close>, and what \<open>format_2f\<close> writes always has exactly two digits after the
  decimal point.
\<close>

theorem format_breakdown_lines:
  "split_lines (format_price_breakdown b) =
     [''Equipment: $'' @ format_2f (bd_daily_rate b) @ ''/day '' @ times_sign @ '' ''
        @ str_int (bd_days b) @ '' days '' @ times_sign @ '' '' @ str_int (bd_qty b)
        @ '' qty = $'' @ format_2f (bd_base_price b)]
     @ (if 0 < bd_dj_price b
        then [''DJ Service: $'' @ format_2f (bd_dj_rate b) @ ''/day '' @ times_sign @ '' ''
                @ str_int (bd_days b) @ '' days '' @ times_sign @ '' '' @ str_int (bd_qty b)
                @ '' qty = $'' @ format_2f (bd_dj_price b)]
        else [])
     @ [''Total: $'' @ format_2f (bd_total b)] \<and>
   list_ex (starts_with ''DJ Service: '') (split_lines (format_price_breakdown b)) =
     (0 < bd_dj_price b) \<and>
   (\<forall>x. two_decimal_places (format_2f x))"
proof -
  have a: "split_lines (format_price_breakdown b) =
     [''Equipment: $'' @ format_2f (bd_daily_rate b) @ ''/day '' @ times_sign @ '' ''
        @ str_int (bd_days b) @ '' days '' @ times_sign @ '' '' @ str_int (bd_qty b)
        @ '' qty = $'' @ format_2f (bd_base_price b)]
     @ (if 0 < bd_dj_price b
        then [''DJ Service: $'' @ format_2f (bd_dj_rate b) @ ''/day '' @ times_sign @ '' ''
                @ str_int (bd_days b) @ '' days '' @ times_sign @ '' '' @ str_int (bd_qty b)
                @ '' qty = $'' @ format_2f (bd_dj_price b)]
        else [])
     @ [''Total: $'' @ format_2f (bd_total b)]"
    by (simp add: split_lines_format equipment_line_def dj_line_def total_line_def)
  have b: "list_ex (starts_with ''DJ Service: '') (split_lines (format_price_breakdown b)) =
     (0 < bd_dj_price b)"
    by (simp add: split_lines_format equipment_line_def dj_line_def total_line_def)
  show ?thesis using a b format_2f_two_decimals by blast
qed

text \<open>
  The theorem at the breakdowns of the specification's pricing examples, with and
  without a DJ.
\<close>

theorem format_breakdown_lines_witness:
  "split_lines (format_price_breakdown \<lparr>bd_days = 3, bd_daily_rate = 75, bd_qty = 1,
       bd_base_price = 225, bd_dj_rate = 150, bd_dj_price = 450, bd_total = 675\<rparr>) =
     [''Equipment: $75.00/day '' @ times_sign @ '' 3 days '' @ times_sign @ '' 1 qty = $225.00'',
      ''DJ Service: $150.00/day '' @ times_sign @ '' 3 days '' @ times_sign @ '' 1 qty = $450.00'',
      ''Total: $675.00''] \<and>
   split_lines (format_price_breakdown \<lparr>bd_days = 3, bd_daily_rate = 75, bd_qty = 1,
       bd_base_price = 225, bd_dj_rate = 0, bd_dj_price = 0, bd_total = 225\<rparr>) =
     [''Equipment: $75.00/day '' @ times_sign @ '' 3 days '' @ times_sign @ '' 1 qty = $225.00'',
      ''Total: $225.00'']"
proof -
  have n: "str_nat 75 = ''75''" "str_nat 225 = ''225''" "str_nat 150 = ''150''"
    "str_nat 450 = ''450''" "str_nat 675 = ''675''"
    by code_simp+
  have f: "format_2f 75 = ''75.00''" "format_2f 225 = ''225.00''" "format_2f 150 = ''150.00''"
    "format_2f 450 = ''450.00''" "format_2f 675 = ''675.00''"
    using format_2f_of_nat[of 75] format_2f_of_nat[of 225] format_2f_of_nat[of 150]
      format_2f_of_nat[of 450] format_2f_of_nat[of 675]
    by (simp_all add: n)
  have d: "str_int 3 = ''3''" "str_int 1 = ''1''" by code_simp+
  show ?thesis
    using format_breakdown_lines[of "\<lparr>bd_days = 3, bd_daily_rate = 75, bd_qty = 1,
       bd_base_price = 225, bd_dj_rate = 150, bd_dj_price = 450, bd_total = 675\<rparr>"]
      format_breakdown_lines[of "\<lparr>bd_days = 3, bd_daily_rate = 75, bd_qty = 1,
       bd_base_price = 225, bd_dj_rate = 0, bd_dj_price = 0, bd_total = 225\<rparr>"]
    by (simp add: f d)
qed

end
